theory Spec2Isabelle
  imports Complex_Main "HOL-Library.Multiset"
begin

section \<open>JavaScript numbers and optional fields\<close>

text \<open>
  The front end computes with JavaScript numbers. A number is modelled as a finite value
  with exact arithmetic, or \<open>NaN\<close>; rounding, overflow to an infinity and the sign of
  zero are outside the model. A numeric field of an object received as JSON is a
  \<open>jsnum option\<close>: \<open>None\<close> is the absent field, which reads as \<open>undefined\<close>. A field
  that is present with the value \<open>null\<close> is outside the model as well.
\<close>

datatype jsnum = Num real | NaN

text \<open>\<open>ToNumber\<close> of a field value: \<open>undefined\<close> converts to \<open>NaN\<close>.\<close>

fun to_number :: "jsnum option \<Rightarrow> jsnum" where
  "to_number None = NaN"
| "to_number (Some x) = x"

text \<open>The operators \<open>+\<close>, \<open>*\<close> and \<open>/\<close> on numbers: \<open>NaN\<close> is absorbing.\<close>

fun js_add :: "jsnum \<Rightarrow> jsnum \<Rightarrow> jsnum" where
  "js_add (Num a) (Num b) = Num (a + b)"
| "js_add _ _ = NaN"

fun js_mul :: "jsnum \<Rightarrow> jsnum \<Rightarrow> jsnum" where
  "js_mul (Num a) (Num b) = Num (a * b)"
| "js_mul _ _ = NaN"

text \<open>
  A quotient with divisor zero is an infinity (or \<open>NaN\<close> for \<open>0 / 0\<close>) in JavaScript.
  The only division of the source stands under the guard that its divisor is positive,
  so the model gives \<open>NaN\<close> for every divisor zero rather than add the infinities.
\<close>

fun js_div :: "jsnum \<Rightarrow> jsnum \<Rightarrow> jsnum" where
  "js_div (Num a) (Num b) = (if b = 0 then NaN else Num (a / b))"
| "js_div _ _ = NaN"

text \<open>The comparisons \<open>>\<close>, \<open><\<close> and \<open>>=\<close>: false as soon as one side is \<open>NaN\<close>.\<close>

fun js_gt :: "jsnum \<Rightarrow> jsnum \<Rightarrow> bool" where
  "js_gt (Num a) (Num b) = (a > b)"
| "js_gt _ _ = False"

fun js_lt :: "jsnum \<Rightarrow> jsnum \<Rightarrow> bool" where
  "js_lt (Num a) (Num b) = (a < b)"
| "js_lt _ _ = False"

fun js_ge :: "jsnum \<Rightarrow> jsnum \<Rightarrow> bool" where
  "js_ge (Num a) (Num b) = (a \<ge> b)"
| "js_ge _ _ = False"

text \<open>Truthiness of a number: \<open>0\<close> and \<open>NaN\<close> are falsy.\<close>

fun truthy :: "jsnum \<Rightarrow> bool" where
  "truthy (Num a) = (a \<noteq> 0)"
| "truthy NaN = False"

text \<open>\<open>x || d\<close> on numbers.\<close>

definition js_or :: "jsnum \<Rightarrow> jsnum \<Rightarrow> jsnum" where
  "js_or x d = (if truthy x then x else d)"

section \<open>Bet outcomes and the running P&L (ResultsPanel)\<close>

text \<open>
  A bet outcome as the simulation response delivers it. The fields carry the prefix
  \<open>o_\<close> because several objects of the program share field names.
\<close>

record outcome =
  o_market_id :: "string option"
  o_rule_id :: string
  o_runner_name :: string
  o_bet_type :: string
  o_price :: "jsnum option"
  o_stake :: "jsnum option"
  o_liability :: "jsnum option"
  o_runner_result :: string
  o_profit :: "jsnum option"

text \<open>The object \<open>{ ...o, running_pnl: runningPnl }\<close>: the outcome with one more field.\<close>

record outcome_running = outcome +
  running_pnl :: jsnum

definition with_running :: "outcome \<Rightarrow> jsnum \<Rightarrow> outcome_running" where
  "with_running oc r = outcome.extend oc (outcome_running.fields r)"

text \<open>
  \<open>bet_outcomes.map(o => { runningPnl += o.profit; return { ...o, running_pnl: runningPnl } })\<close>:
  the callback updates the variable \<open>runningPnl\<close> of the enclosing scope, so the loop
  threads it through the list from left to right.
\<close>

fun running_loop :: "jsnum \<Rightarrow> outcome list \<Rightarrow> outcome_running list" where
  "running_loop runningPnl [] = []"
| "running_loop runningPnl (oc # rest) =
     (let runningPnl' = js_add runningPnl (to_number (o_profit oc))
      in with_running oc runningPnl' # running_loop runningPnl' rest)"

definition outcomesWithRunning :: "outcome list \<Rightarrow> outcome_running list" where
  "outcomesWithRunning bet_outcomes = running_loop (Num 0) bet_outcomes"

section \<open>The results view (ResultsPanel, SummaryBar)\<close>

text \<open>
  A component returns markup. The model keeps the content that depends on the data: the
  text of a cell is the list of its children. The string that the library method
  \<open>x.toFixed(d)\<close> returns is kept as the child \<open>Fixed x d\<close>, a number placed in the
  markup as \<open>Shown x\<close>; an \<open>undefined\<close> child renders nothing and is left out.
\<close>

datatype piece = Text string | Fixed jsnum nat | Shown jsnum

datatype error = TypeError | SyntaxError

text \<open>Sequencing of steps that may throw.\<close>

definition bind_ok :: "error + 'a \<Rightarrow> ('a \<Rightarrow> error + 'b) \<Rightarrow> error + 'b" where
  "bind_ok r f = (case r of Inl e \<Rightarrow> Inl e | Inr x \<Rightarrow> f x)"

text \<open>\<open>x.toFixed(d)\<close> throws a TypeError when \<open>x\<close> is \<open>undefined\<close>.\<close>

definition call_toFixed :: "jsnum option \<Rightarrow> nat \<Rightarrow> error + piece" where
  "call_toFixed x d = (case x of None \<Rightarrow> Inl TypeError | Some v \<Rightarrow> Inr (Fixed v d))"

text \<open>\<open>x?.toFixed(d)\<close> as a child: nothing when \<open>x\<close> is \<open>undefined\<close>.\<close>

definition opt_fixed :: "jsnum option \<Rightarrow> nat \<Rightarrow> piece list" where
  "opt_fixed x d = (case x of None \<Rightarrow> [] | Some v \<Rightarrow> [Fixed v d])"

text \<open>\<open>{x}\<close> as a child, for a numeric field \<open>x\<close>.\<close>

definition shown :: "jsnum option \<Rightarrow> piece list" where
  "shown x = (case x of None \<Rightarrow> [] | Some v \<Rightarrow> [Shown v])"

text \<open>\<open>s || d\<close> on an optional string: the empty string and \<open>undefined\<close> are falsy.\<close>

definition str_or :: "string option \<Rightarrow> string \<Rightarrow> string" where
  "str_or s d = (case s of None \<Rightarrow> d | Some v \<Rightarrow> if v = [] then d else v)"

text \<open>The pound sign, code unit U+00A3.\<close>

definition pound :: string where
  "pound = [CHR 0xA3]"

record summary =
  total_pnl :: "jsnum option"
  win_count :: "jsnum option"
  loss_count :: "jsnum option"
  win_rate :: "jsnum option"
  roi_percent :: "jsnum option"
  total_stake :: "jsnum option"
  total_liability :: "jsnum option"
  avg_win :: "jsnum option"
  avg_loss :: "jsnum option"

record summary_view =
  sv_class :: string
  sv_pnl :: "piece list"
  sv_wins :: "piece list"
  sv_losses :: "piece list"
  sv_win_rate :: "piece list"
  sv_roi :: "piece list"
  sv_staked :: "piece list"
  sv_liability :: "piece list"
  sv_avg_win :: "piece list"
  sv_avg_loss :: "piece list"

text \<open>
  The class of an amount, \<open>x > 0 ? 'pnl-positive' : x < 0 ? 'pnl-negative' : 'pnl-zero'\<close>,
  written out in SummaryBar for \<open>summary.total_pnl\<close> and in ResultsPanel for
  \<open>o.running_pnl\<close>.
\<close>

definition pnl_class :: "jsnum \<Rightarrow> string" where
  "pnl_class x =
     (if js_gt x (Num 0) then ''pnl-positive''
      else if js_lt x (Num 0) then ''pnl-negative''
      else ''pnl-zero'')"

text \<open>
  The win rate shown by SummaryBar:
  \<open>{win_count + loss_count > 0 ? ((win_count / (win_count + loss_count)) * 100).toFixed(1) : '0'}%\<close>.
\<close>

definition win_rate_cell :: "summary \<Rightarrow> piece list" where
  "win_rate_cell s =
     (let wc = to_number (win_count s); lc = to_number (loss_count s)
      in [if js_gt (js_add wc lc) (Num 0)
          then Fixed (js_mul (js_div wc (js_add wc lc)) (Num 100)) 1
          else Text ''0'',
          Text ''%''])"

text \<open>
  SummaryBar returns nothing for a missing summary. The unguarded \<open>toFixed\<close> calls are
  evaluated in the order of the markup; the first one on an absent field throws.
\<close>

definition SummaryBar :: "summary option \<Rightarrow> error + summary_view option" where
  "SummaryBar sm =
     (case sm of
        None \<Rightarrow> Inr None
      | Some s \<Rightarrow>
          bind_ok (call_toFixed (total_pnl s) 2) (\<lambda>pnl.
          bind_ok (call_toFixed (roi_percent s) 1) (\<lambda>roi.
          bind_ok (call_toFixed (total_stake s) 2) (\<lambda>staked.
          bind_ok (call_toFixed (total_liability s) 2) (\<lambda>liability.
          bind_ok (call_toFixed (avg_win s) 2) (\<lambda>aw.
          bind_ok (call_toFixed (avg_loss s) 2) (\<lambda>al.
            Inr (Some
              \<lparr>sv_class = pnl_class (to_number (total_pnl s)),
               sv_pnl = [Text (if js_ge (to_number (total_pnl s)) (Num 0) then ''+'' else []),
                         Text pound, pnl],
               sv_wins = shown (win_count s),
               sv_losses = shown (loss_count s),
               sv_win_rate = win_rate_cell s,
               sv_roi = [roi, Text ''%''],
               sv_staked = [Text pound, staked],
               sv_liability = [Text pound, liability],
               sv_avg_win = [Text pound, aw],
               sv_avg_loss = [Text pound, al]\<rparr>))))))))"

text \<open>The per-market metadata of the response; \<open>{}\<close> is the object with no field.\<close>

record evaluation =
  e_market_id :: "string option"
  e_venue :: "string option"
  e_market_name :: "string option"

definition empty_object :: evaluation where
  "empty_object = \<lparr>e_market_id = None, e_venue = None, e_market_name = None\<rparr>"

record row =
  venue_cell :: string
  market_cell :: string
  runner_cell :: string
  rule_cell :: string
  type_cell :: string
  odds_cell :: "piece list"
  stake_cell :: "piece list"
  liability_cell :: "piece list"
  result_cell :: string
  pnl_cell :: "piece list"
  running_cell :: "piece list"
  pnlClass :: string
  runClass :: string

text \<open>
  One table row. \<open>evaluations.find(e => e.market_id === o.market_id) || {}\<close> is the first
  evaluation of the same market, or the empty object; the source names it \<open>eval_\<close>.
\<close>

definition render_row :: "evaluation list \<Rightarrow> outcome_running \<Rightarrow> row" where
  "render_row evaluations oc =
     (let eval' = (case find (\<lambda>e. e_market_id e = o_market_id oc) evaluations of
                     None \<Rightarrow> empty_object
                   | Some e \<Rightarrow> e)
      in \<lparr>venue_cell = str_or (e_venue eval') [],
          market_cell = str_or (e_market_name eval') [],
          runner_cell = o_runner_name oc,
          rule_cell = o_rule_id oc,
          type_cell = o_bet_type oc,
          odds_cell = opt_fixed (o_price oc) 2,
          stake_cell = Text pound # opt_fixed (o_stake oc) 2,
          liability_cell = Text pound # opt_fixed (o_liability oc) 2,
          result_cell = o_runner_result oc,
          pnl_cell = Text (if js_ge (to_number (o_profit oc)) (Num 0) then ''+'' else [])
                     # Text pound # opt_fixed (o_profit oc) 2,
          running_cell = [Text (if js_ge (running_pnl oc) (Num 0) then ''+'' else []),
                          Text pound, Fixed (running_pnl oc) 2],
          pnlClass = (if js_gt (to_number (o_profit oc)) (Num 0) then ''result-win''
                      else if js_lt (to_number (o_profit oc)) (Num 0) then ''result-loss''
                      else ''result-void''),
          runClass = pnl_class (running_pnl oc)\<rparr>)"

text \<open>The simulation response, as far as the results view reads it.\<close>

record results =
  strategy_name :: string
  markets_evaluated :: "jsnum option"
  markets_with_bets :: "jsnum option"
  bets_placed :: "jsnum option"
  bet_outcomes :: "outcome list option"
  evaluations :: "evaluation list option"
  summary :: "summary option"

record results_view =
  title_name :: string
  bar :: "summary_view option"
  counts_line :: "piece list"
  table :: "row list option"

datatype panel = Placeholder | Panel results_view

text \<open>
  ResultsPanel. Without results it shows a placeholder. \<open>bet_outcomes.map\<close> throws when
  the response has no \<open>bet_outcomes\<close>; the table is built only for a non-empty list
  (\<open>table = None\<close> stands for the message that no bets were placed), and then
  \<open>evaluations.find\<close> throws when the response has no \<open>evaluations\<close>. The summary bar
  is rendered after the panel's own markup.
\<close>

definition ResultsPanel :: "results option \<Rightarrow> error + panel" where
  "ResultsPanel res =
     (case res of
        None \<Rightarrow> Inr Placeholder
      | Some r \<Rightarrow>
          (case bet_outcomes r of
             None \<Rightarrow> Inl TypeError
           | Some bos \<Rightarrow>
               bind_ok
                 (if length bos = 0 then Inr None
                  else (case evaluations r of
                          None \<Rightarrow> Inl TypeError
                        | Some evs \<Rightarrow>
                            Inr (Some (map (render_row evs) (outcomesWithRunning bos)))))
                 (\<lambda>tbl. bind_ok (SummaryBar (summary r))
                 (\<lambda>b. Inr (Panel
                    \<lparr>title_name = strategy_name r,
                     bar = b,
                     counts_line =
                       shown (markets_evaluated r) @ [Text '' markets evaluated /'']
                       @ shown (markets_with_bets r) @ [Text '' with bets /'']
                       @ shown (bets_placed r) @ [Text '' bets placed''],
                     table = tbl\<rparr>)))))"


section \<open>The strategy editor (ConditionRow, ActionRow, RuleCard, StrategyEditor)\<close>

record condition =
  c_field :: string
  c_operator :: string
  c_value :: jsnum
  c_value_high :: "jsnum option"

record action =
  target :: string
  bet_type :: string
  stake :: jsnum

record rule =
  r_id :: string
  r_name :: string
  priority :: int
  conditions :: "condition list"
  actions :: "action list"
  stop_on_match :: bool

text \<open>
  A strategy. Fields the editor does not know travel in the extension part of the
  record (the type \<open>'a strategy_scheme\<close>).
\<close>

record strategy =
  s_id :: string
  s_name :: string
  rules :: "rule list"

subsection \<open>parseFloat\<close>

text \<open>
  The library function \<open>parseFloat\<close>: white space is skipped, then the longest prefix
  that is a decimal literal (sign, digits, fraction, exponent) is read; the result is
  \<open>NaN\<close> when there is none. The literal \<open>Infinity\<close> is outside the number model.
\<close>

definition is_space :: "char \<Rightarrow> bool" where
  "is_space c = (c \<in> set [CHR '' '', CHR 0x09, CHR 0x0A, CHR 0x0B, CHR 0x0C, CHR 0x0D])"

definition is_digit :: "char \<Rightarrow> bool" where
  "is_digit c = (c \<in> set ''0123456789'')"

definition digit_value :: "char \<Rightarrow> nat" where
  "digit_value c = of_char c - 48"

definition digits_value :: "string \<Rightarrow> nat" where
  "digits_value ds = foldl (\<lambda>n c. 10 * n + digit_value c) 0 ds"

definition split_sign :: "string \<Rightarrow> bool \<times> string" where
  "split_sign s =
     (case s of
        [] \<Rightarrow> (False, [])
      | c # r \<Rightarrow> if c = CHR ''-'' then (True, r) else if c = CHR ''+'' then (False, r) else (False, s))"

definition parse_exponent :: "string \<Rightarrow> int" where
  "parse_exponent s =
     (case s of
        [] \<Rightarrow> 0
      | c # r \<Rightarrow>
          if c = CHR ''e'' \<or> c = CHR ''E'' then
            (let (neg, r') = split_sign r; ds = takeWhile is_digit r'
             in if ds = [] then 0 else if neg then - int (digits_value ds) else int (digits_value ds))
          else 0)"

definition parseFloat :: "string \<Rightarrow> jsnum" where
  "parseFloat s =
     (let (neg, t) = split_sign (dropWhile is_space s);
          ip = takeWhile is_digit t;
          t2 = dropWhile is_digit t;
          (fp, t3) = (case t2 of
                        [] \<Rightarrow> ([], [])
                      | c # r \<Rightarrow> if c = CHR ''.'' then (takeWhile is_digit r, dropWhile is_digit r)
                                else ([], t2))
      in if ip = [] \<and> fp = [] then NaN
         else (let m = real (digits_value (ip @ fp)) / 10 ^ length fp * 10 powi parse_exponent t3
               in Num (if neg then - m else m)))"

subsection \<open>ActionRow\<close>

text \<open>
  The stake input: \<open>onChange={e => update('stake', parseFloat(e.target.value) || 0)}\<close>
  with \<open>update = (key, val) => onChange({ ...action, [key]: val })\<close>. The function gives
  the action handed to \<open>onChange\<close> for the text \<open>e.target.value\<close> of the input.
\<close>

definition stake_onChange :: "string \<Rightarrow> action \<Rightarrow> action" where
  "stake_onChange input_value a = a\<lparr>stake := js_or (parseFloat input_value) (Num 0)\<rparr>"

subsection \<open>Sorting the rules\<close>

text \<open>
  The library method \<open>Array.prototype.sort(comparefn)\<close> sorts the array in place and
  returns it; it is stable. Under a comparator that is a difference of integer keys its
  result is the one that insertion from the right computes: an element goes in front of
  the first element it does not compare greater than.
\<close>

fun sort_insert :: "('a \<Rightarrow> 'a \<Rightarrow> int) \<Rightarrow> 'a \<Rightarrow> 'a list \<Rightarrow> 'a list" where
  "sort_insert comparefn x [] = [x]"
| "sort_insert comparefn x (y # ys) =
     (if comparefn x y \<le> 0 then x # y # ys else y # sort_insert comparefn x ys)"

fun js_sort :: "('a \<Rightarrow> 'a \<Rightarrow> int) \<Rightarrow> 'a list \<Rightarrow> 'a list" where
  "js_sort comparefn [] = []"
| "js_sort comparefn (x # xs) = sort_insert comparefn x (js_sort comparefn xs)"

text \<open>
  The list of rule cards of StrategyEditor:
  \<open>strategy.rules.sort((a, b) => a.priority - b.priority).map((rule, i) => <RuleCard ... />)\<close>.
  Each card is the rule with the index that its handlers pass on. Since \<open>sort\<close> works in
  place, the strategy object held by the application has its \<open>rules\<close> reordered; the
  function returns the cards and the strategy as it is after rendering.
\<close>

definition rule_cards :: "'a strategy_scheme \<Rightarrow> (nat \<times> rule) list \<times> 'a strategy_scheme" where
  "rule_cards strategy =
     (let sorted_rules = js_sort (\<lambda>a b. priority a - priority b) (rules strategy)
      in (zip [0..<length sorted_rules] sorted_rules, strategy\<lparr>rules := sorted_rules\<rparr>))"

subsection \<open>Export and import\<close>



section \<open>The application (App, api)\<close>

text \<open>The body that \<open>runSimulation\<close> posts to \<open>/api/simulate\<close>.\<close>

record 's sim_request =
  req_date :: string
  req_strategy :: 's
  market_ids :: "string list option"

text \<open>
  The state of App, and with it what the handlers leave in the world outside: the
  bodies posted to the engine, the lines of \<open>console.error\<close> and the alerts.
\<close>

record ('s, 'r) app =
  selectedDate :: string
  selectedMarkets :: "string list"
  strategy :: "'s option"
  results :: "'r option"
  running :: bool

record ('s, 'r) world = "('s, 'r) app" +
  posted :: "'s sim_request list"
  console :: "(string \<times> error) list"
  alerts :: "string list"

text \<open>
  \<open>runSimulation(date, strategy, marketIds = null)\<close> posts the body and returns the
  parsed response. The parameter \<open>engine\<close> stands for the remote call: \<open>fetch\<close> followed
  by \<open>r.json()\<close>, which gives the response or throws. The function returns the body it
  sent along with the outcome of the call.
\<close>

definition runSimulation ::
  "('s sim_request \<Rightarrow> error + 'r) \<Rightarrow> string \<Rightarrow> 's \<Rightarrow> string list option
     \<Rightarrow> 's sim_request \<times> (error + 'r)" where
  "runSimulation engine date strat marketIds =
     (let body = \<lparr>req_date = date, req_strategy = strat, market_ids = marketIds\<rparr>
      in (body, engine body))"

text \<open>
  handleRun. The \<open>await\<close> is modelled as a call that returns: no other handler runs
  between the request and its answer.
\<close>

definition handleRun ::
  "('s sim_request \<Rightarrow> error + 'r) \<Rightarrow> ('s, 'r) world \<Rightarrow> ('s, 'r) world" where
  "handleRun engine w =
     (case strategy w of
        None \<Rightarrow> w
      | Some strat \<Rightarrow>
          if selectedDate w = [] then w
          else
            (let w1 = w\<lparr>running := True\<rparr>;
                 marketIds = (if length (selectedMarkets w1) > 0 then Some (selectedMarkets w1)
                              else None);
                 (body, answer) = runSimulation engine (selectedDate w1) strat marketIds;
                 w2 = w1\<lparr>posted := posted w1 @ [body]\<rparr>;
                 w3 = (case answer of
                         Inr data \<Rightarrow> w2\<lparr>results := Some data\<rparr>
                       | Inl err \<Rightarrow> w2\<lparr>console := console w2 @ [(''Simulation error:'', err)]\<rparr>)
             in w3\<lparr>running := False\<rparr>))"


section \<open>Example data\<close>

text \<open>A settled bet of market \<open>market\<close> with the given \<open>profit\<close> field.\<close>

definition bet :: "string \<Rightarrow> jsnum option \<Rightarrow> outcome" where
  "bet market profit =
     \<lparr>o_market_id = Some market, o_rule_id = ''RULE_1'', o_runner_name = ''Runner'',
      o_bet_type = ''LAY'', o_price = Some (Num 2), o_stake = Some (Num 1),
      o_liability = Some (Num 1), o_runner_result = ''LOSER'', o_profit = profit\<rparr>"



text \<open>A rule as the editor's \<open>addRule\<close> creates it, with the given id and priority.\<close>

definition example_rule :: "string \<Rightarrow> int \<Rightarrow> rule" where
  "example_rule ident prio =
     \<lparr>r_id = ident, r_name = ''New Rule'', priority = prio,
      conditions = [\<lparr>c_field = ''fav_lay_odds'', c_operator = ''lt'', c_value = Num 2,
                     c_value_high = None\<rparr>],
      actions = [\<lparr>target = ''favourite'', bet_type = ''LAY'', stake = Num 1\<rparr>],
      stop_on_match = True\<rparr>"

text \<open>A strategy whose rules are stored out of priority order, two of them tied.\<close>

definition unsorted_strategy :: strategy where
  "unsorted_strategy =
     \<lparr>s_id = ''s1'', s_name = ''Example'',
      rules = [example_rule ''B'' 2, example_rule ''A'' 1, example_rule ''C'' 2]\<rparr>"

text \<open>
  Outcomes of which the second has no \<open>profit\<close>, no \<open>stake\<close> and no \<open>liability\<close>, and
  a response that carries them with the metadata of market \<open>m1\<close> only and no summary.
\<close>

definition malformed_outcomes :: "outcome list" where
  "malformed_outcomes =
     [bet ''m1'' (Some (Num 5)),
      (bet ''m2'' None)\<lparr>o_stake := None, o_liability := None\<rparr>,
      bet ''m3'' (Some (Num 5))]"

definition example_evaluations :: "evaluation list" where
  "example_evaluations =
     [\<lparr>e_market_id = Some ''m1'', e_venue = Some ''Ascot'', e_market_name = Some ''1m Hcap''\<rparr>]"

definition malformed_results :: results where
  "malformed_results =
     \<lparr>strategy_name = ''Example'', markets_evaluated = Some (Num 3),
      markets_with_bets = Some (Num 3), bets_placed = Some (Num 3),
      bet_outcomes = Some malformed_outcomes,
      evaluations = Some example_evaluations,
      summary = None\<rparr>"





text \<open>The action that \<open>addAction\<close> creates.\<close>

definition example_action :: action where
  "example_action = \<lparr>target = ''favourite'', bet_type = ''LAY'', stake = Num 1\<rparr>"







text \<open>
  An application that shows the results of an earlier run, with the given selection of
  markets; an engine whose call throws, and one that answers.
\<close>

definition example_results :: results where
  "example_results =
     \<lparr>strategy_name = ''Example'', markets_evaluated = Some (Num 0),
      markets_with_bets = Some (Num 0), bets_placed = Some (Num 0),
      bet_outcomes = Some [], evaluations = Some [], summary = None\<rparr>"

definition ready_world :: "string list \<Rightarrow> (strategy, results) world" where
  "ready_world markets =
     \<lparr>selectedDate = ''2024-01-01'', selectedMarkets = markets,
      strategy = Some unsorted_strategy, results = Some example_results,
      running = False, posted = [], console = [], alerts = []\<rparr>"

definition failing_engine :: "strategy sim_request \<Rightarrow> error + results" where
  "failing_engine body = Inl TypeError"

definition answering_engine :: "strategy sim_request \<Rightarrow> error + results" where
  "answering_engine body = Inr malformed_results"

section \<open>Properties of the running P&L\<close>

lemma truncate_with_running: "outcome.truncate (with_running oc r) = oc"
  by (simp add: with_running_def outcome.defs outcome_running.defs)

lemma running_pnl_with_running: "running_pnl (with_running oc r) = r"
  by (simp add: with_running_def outcome.defs outcome_running.defs)

lemma length_running_loop: "length (running_loop acc ocs) = length ocs"
  by (induction ocs arbitrary: acc) (simp_all add: Let_def)

lemma truncate_running_loop:
  "i < length ocs \<Longrightarrow> outcome.truncate (running_loop acc ocs ! i) = ocs ! i"
proof (induction ocs arbitrary: acc i)
  case Nil
  then show ?case by simp
next
  case (Cons oc rest)
  show ?case
  proof (cases i)
    case 0
    then show ?thesis by (simp add: Let_def truncate_with_running)
  next
    case (Suc k)
    with Cons.prems have "k < length rest" by simp
    with Cons.IH Suc show ?thesis by (simp add: Let_def)
  qed
qed

lemma running_loop_step:
  "i < length ocs \<Longrightarrow>
   running_pnl (running_loop acc ocs ! i) =
     js_add (if i = 0 then acc else running_pnl (running_loop acc ocs ! (i - 1)))
       (to_number (o_profit (ocs ! i)))"
proof (induction ocs arbitrary: acc i)
  case Nil
  then show ?case by simp
next
  case (Cons oc rest)
  show ?case
  proof (cases i)
    case 0
    then show ?thesis by (simp add: Let_def running_pnl_with_running)
  next
    case (Suc k)
    with Cons.prems have k: "k < length rest" by simp
    show ?thesis
    proof (cases k)
      case 0
      with Cons.IH [OF k] Suc show ?thesis
        by (simp add: Let_def running_pnl_with_running)
    next
      case (Suc m)
      with Cons.IH [OF k] \<open>i = Suc k\<close> show ?thesis
        by (simp add: Let_def)
    qed
  qed
qed




section \<open>Properties of the rule cards\<close>

lemma sort_insert_insort_key:
  "sort_insert (\<lambda>a b. f a - f b) x ys = insort_key f x ys" for f :: "'a \<Rightarrow> int"
  by (induction ys) simp_all

lemma js_sort_sort_key:
  "js_sort (\<lambda>a b. f a - f b) xs = sort_key f xs" for f :: "'a \<Rightarrow> int"
  by (induction xs) (simp_all add: sort_insert_insort_key)

lemma shown_rule_cards:
  "map snd (fst (rule_cards s)) = sort_key priority (rules s)"
  by (simp add: rule_cards_def Let_def js_sort_sort_key)

lemma stored_rule_cards:
  "rules (snd (rule_cards s)) = sort_key priority (rules s)"
  by (simp add: rule_cards_def Let_def js_sort_sort_key)

lemma sort_key_fixpoint:
  "(sort_key f xs = xs) = sorted (map f xs)"
proof
  assume "sort_key f xs = xs"
  then have "sorted (map f xs) = sorted (map f (sort_key f xs))" by simp
  then show "sorted (map f xs)" by simp
next
  assume "sorted (map f xs)"
  then show "sort_key f xs = xs" by (rule sort_key_id_if_sorted)
qed

text \<open>
  C8. The rule cards are shown in ascending priority: they are the rules of the
  strategy, each once, numbered from \<open>0\<close> in the order shown, and for every priority
  \<open>k\<close> the rules of priority \<open>k\<close> stand in the order they have in the input list.
\<close>

theorem rule_cards_priority_stable:
  "sorted (map priority (map snd (fst (rule_cards s)))) \<and>
   mset (map snd (fst (rule_cards s))) = mset (rules s) \<and>
   map fst (fst (rule_cards s)) = [0..<length (rules s)] \<and>
   (\<forall>k. filter (\<lambda>r. priority r = k) (map snd (fst (rule_cards s))) =
        filter (\<lambda>r. priority r = k) (rules s))"
proof (intro conjI allI)
  show "sorted (map priority (map snd (fst (rule_cards s))))"
    unfolding shown_rule_cards by (rule sorted_sort_key)
  show "mset (map snd (fst (rule_cards s))) = mset (rules s)"
    unfolding shown_rule_cards by simp
  show "map fst (fst (rule_cards s)) = [0..<length (rules s)]"
    by (simp add: rule_cards_def Let_def js_sort_sort_key)
  fix k
  show "filter (\<lambda>r. priority r = k) (map snd (fst (rule_cards s))) =
        filter (\<lambda>r. priority r = k) (rules s)"
    unfolding shown_rule_cards by (rule sort_key_stable)
qed

text \<open>
  C3, as stated, fails: rendering the cards of a strategy stored as B (priority 2),
  A (priority 1), C (priority 2) leaves the stored list as A, B, C.
\<close>

theorem rule_cards_reorders_stored_rules:
  "rules unsorted_strategy = [example_rule ''B'' 2, example_rule ''A'' 1, example_rule ''C'' 2] \<and>
   rules (snd (rule_cards unsorted_strategy)) =
     [example_rule ''A'' 1, example_rule ''B'' 2, example_rule ''C'' 2] \<and>
   rules (snd (rule_cards unsorted_strategy)) \<noteq> rules unsorted_strategy"
  by (simp add: rule_cards_def unsorted_strategy_def example_rule_def)

text \<open>
  C3, amended. Reading the rules in priority order sorts the stored list in place:
  after rendering, the stored rules are the rules shown, in ascending priority, the same
  rules as before; the other fields of the strategy are unchanged; and the stored list
  is unchanged exactly when it was in ascending priority order already.
\<close>

theorem rule_cards_sorts_in_place:
  "rules (snd (rule_cards s)) = map snd (fst (rule_cards s)) \<and>
   sorted (map priority (rules (snd (rule_cards s)))) \<and>
   mset (rules (snd (rule_cards s))) = mset (rules s) \<and>
   s_id (snd (rule_cards s)) = s_id s \<and>
   s_name (snd (rule_cards s)) = s_name s \<and>
   strategy.more (snd (rule_cards s)) = strategy.more s \<and>
   (rules (snd (rule_cards s)) = rules s) = sorted (map priority (rules s))"
proof (intro conjI)
  show "rules (snd (rule_cards s)) = map snd (fst (rule_cards s))"
    by (simp add: shown_rule_cards stored_rule_cards)
  show "sorted (map priority (rules (snd (rule_cards s))))"
    unfolding stored_rule_cards by (rule sorted_sort_key)
  show "mset (rules (snd (rule_cards s))) = mset (rules s)"
    unfolding stored_rule_cards by simp
  show "s_id (snd (rule_cards s)) = s_id s"
    by (simp add: rule_cards_def Let_def)
  show "s_name (snd (rule_cards s)) = s_name s"
    by (simp add: rule_cards_def Let_def)
  show "strategy.more (snd (rule_cards s)) = strategy.more s"
    by (simp add: rule_cards_def Let_def)
  show "(rules (snd (rule_cards s)) = rules s) = sorted (map priority (rules s))"
    unfolding stored_rule_cards by (rule sort_key_fixpoint)
qed

section \<open>Properties of the results view\<close>

lemma js_add_NaN_right: "js_add x NaN = NaN"
  by (cases x) simp_all

lemma running_loop_NaN:
  assumes "i < length ocs" and "o_profit (ocs ! i) = None" and "i \<le> j" and "j < length ocs"
  shows "running_pnl (running_loop acc ocs ! j) = NaN"
  using assms(3,4)
proof (induction j rule: dec_induct)
  case base
  then show ?case
    using running_loop_step [of i ocs acc] assms(2) by (simp add: js_add_NaN_right)
next
  case (step n)
  then have "running_pnl (running_loop acc ocs ! n) = NaN" by simp
  with step.prems show ?case
    using running_loop_step [of "Suc n" ocs acc] by simp
qed

lemma outcome_of_running:
  assumes "i < length ocs"
  shows "o_market_id (outcomesWithRunning ocs ! i) = o_market_id (ocs ! i)"
    and "o_runner_name (outcomesWithRunning ocs ! i) = o_runner_name (ocs ! i)"
    and "o_rule_id (outcomesWithRunning ocs ! i) = o_rule_id (ocs ! i)"
    and "o_stake (outcomesWithRunning ocs ! i) = o_stake (ocs ! i)"
    and "o_liability (outcomesWithRunning ocs ! i) = o_liability (ocs ! i)"
    and "o_profit (outcomesWithRunning ocs ! i) = o_profit (ocs ! i)"
proof -
  have "outcome.truncate (outcomesWithRunning ocs ! i) = ocs ! i"
    using assms by (simp add: outcomesWithRunning_def truncate_running_loop)
  then have eq: "ocs ! i = outcome.truncate (outcomesWithRunning ocs ! i)" by simp
  show "o_market_id (outcomesWithRunning ocs ! i) = o_market_id (ocs ! i)"
    and "o_runner_name (outcomesWithRunning ocs ! i) = o_runner_name (ocs ! i)"
    and "o_rule_id (outcomesWithRunning ocs ! i) = o_rule_id (ocs ! i)"
    and "o_stake (outcomesWithRunning ocs ! i) = o_stake (ocs ! i)"
    and "o_liability (outcomesWithRunning ocs ! i) = o_liability (ocs ! i)"
    and "o_profit (outcomesWithRunning ocs ! i) = o_profit (ocs ! i)"
    unfolding eq by (simp_all add: outcome.truncate_def)
qed

lemma render_row_no_match:
  assumes "\<forall>e\<in>set evs. e_market_id e \<noteq> o_market_id oc"
  shows "venue_cell (render_row evs oc) = [] \<and> market_cell (render_row evs oc) = []"
proof -
  from assms have "find (\<lambda>e. e_market_id e = o_market_id oc) evs = None"
    by (simp add: find_None_iff)
  then show ?thesis
    by (simp add: render_row_def Let_def empty_object_def str_or_def)
qed

lemma ResultsPanel_rows:
  assumes "bet_outcomes r = Some ocs" and "evaluations r = Some evs"
    and "SummaryBar (summary r) = Inr b"
  shows "\<exists>v. ResultsPanel (Some r) = Inr (Panel v) \<and> bar v = b \<and>
             table v = (if ocs = [] then None
                        else Some (map (render_row evs) (outcomesWithRunning ocs)))"
  using assms by (simp add: ResultsPanel_def bind_ok_def Let_def)

text \<open>
  C2, as stated, fails: for the outcomes of which the second has no \<open>profit\<close>, no
  \<open>stake\<close> and no \<open>liability\<close> the panel does not fail. It renders all three rows; the
  second shows empty amounts, and the running P&L is \<open>NaN\<close> from that row on.
\<close>

theorem malformed_outcome_is_rendered:
  "ResultsPanel (Some malformed_results) =
     Inr (Panel
       \<lparr>title_name = ''Example'', bar = None,
        counts_line = [Shown (Num 3), Text '' markets evaluated /'', Shown (Num 3),
                       Text '' with bets /'', Shown (Num 3), Text '' bets placed''],
        table = Some
          [\<lparr>venue_cell = ''Ascot'', market_cell = ''1m Hcap'', runner_cell = ''Runner'',
            rule_cell = ''RULE_1'', type_cell = ''LAY'', odds_cell = [Fixed (Num 2) 2],
            stake_cell = [Text pound, Fixed (Num 1) 2],
            liability_cell = [Text pound, Fixed (Num 1) 2],
            result_cell = ''LOSER'',
            pnl_cell = [Text ''+'', Text pound, Fixed (Num 5) 2],
            running_cell = [Text ''+'', Text pound, Fixed (Num 5) 2],
            pnlClass = ''result-win'', runClass = ''pnl-positive''\<rparr>,
           \<lparr>venue_cell = [], market_cell = [], runner_cell = ''Runner'',
            rule_cell = ''RULE_1'', type_cell = ''LAY'', odds_cell = [Fixed (Num 2) 2],
            stake_cell = [Text pound],
            liability_cell = [Text pound],
            result_cell = ''LOSER'',
            pnl_cell = [Text [], Text pound],
            running_cell = [Text [], Text pound, Fixed NaN 2],
            pnlClass = ''result-void'', runClass = ''pnl-zero''\<rparr>,
           \<lparr>venue_cell = [], market_cell = [], runner_cell = ''Runner'',
            rule_cell = ''RULE_1'', type_cell = ''LAY'', odds_cell = [Fixed (Num 2) 2],
            stake_cell = [Text pound, Fixed (Num 1) 2],
            liability_cell = [Text pound, Fixed (Num 1) 2],
            result_cell = ''LOSER'',
            pnl_cell = [Text ''+'', Text pound, Fixed (Num 5) 2],
            running_cell = [Text [], Text pound, Fixed NaN 2],
            pnlClass = ''result-win'', runClass = ''pnl-zero''\<rparr>]\<rparr>)"
  by (simp add: ResultsPanel_def malformed_results_def malformed_outcomes_def
      example_evaluations_def bet_def
      outcomesWithRunning_def with_running_def outcome.defs outcome_running.defs Let_def
      bind_ok_def SummaryBar_def render_row_def shown_def opt_fixed_def str_or_def
      empty_object_def pnl_class_def)

text \<open>
  C2, amended. An outcome with an absent \<open>profit\<close>, \<open>stake\<close> or \<open>liability\<close> does not
  make the results view fail. For a response that carries \<open>bet_outcomes\<close> and
  \<open>evaluations\<close> and whose summary bar renders, the panel renders with that summary
  bar and one row per outcome, in order, none skipped; an absent stake, liability or
  profit shows as an empty amount, not as zero; and from the first outcome with an
  absent profit on the running P&L is \<open>NaN\<close>.
\<close>

theorem ResultsPanel_renders_absent_fields:
  assumes "bet_outcomes r = Some ocs" and "evaluations r = Some evs"
    and "SummaryBar (summary r) = Inr b"
  shows "\<exists>v rows. ResultsPanel (Some r) = Inr (Panel v) \<and> bar v = b \<and>
           table v = (if ocs = [] then None else Some rows) \<and>
           length rows = length ocs \<and>
           (\<forall>i<length ocs.
              runner_cell (rows ! i) = o_runner_name (ocs ! i) \<and>
              rule_cell (rows ! i) = o_rule_id (ocs ! i) \<and>
              (o_stake (ocs ! i) = None \<longrightarrow> stake_cell (rows ! i) = [Text pound]) \<and>
              (o_liability (ocs ! i) = None \<longrightarrow> liability_cell (rows ! i) = [Text pound]) \<and>
              (o_profit (ocs ! i) = None \<longrightarrow>
                 pnl_cell (rows ! i) = [Text [], Text pound] \<and>
                 (\<forall>j. i \<le> j \<and> j < length ocs \<longrightarrow>
                    running_cell (rows ! j) = [Text [], Text pound, Fixed NaN 2])))"
proof -
  define rows where "rows = map (render_row evs) (outcomesWithRunning ocs)"
  from ResultsPanel_rows [OF assms] obtain v where
    v: "ResultsPanel (Some r) = Inr (Panel v)" "bar v = b"
       "table v = (if ocs = [] then None else Some rows)"
    unfolding rows_def by blast
  have len: "length rows = length ocs"
    by (simp add: rows_def outcomesWithRunning_def length_running_loop)
  have row: "rows ! i = render_row evs (outcomesWithRunning ocs ! i)" if "i < length ocs" for i
    using that by (simp add: rows_def outcomesWithRunning_def length_running_loop)
  have cells: "runner_cell (rows ! i) = o_runner_name (ocs ! i) \<and>
      rule_cell (rows ! i) = o_rule_id (ocs ! i) \<and>
      (o_stake (ocs ! i) = None \<longrightarrow> stake_cell (rows ! i) = [Text pound]) \<and>
      (o_liability (ocs ! i) = None \<longrightarrow> liability_cell (rows ! i) = [Text pound]) \<and>
      (o_profit (ocs ! i) = None \<longrightarrow> pnl_cell (rows ! i) = [Text [], Text pound])"
    if "i < length ocs" for i
    using that
    by (simp add: row render_row_def Let_def outcome_of_running opt_fixed_def)
  have nan: "running_cell (rows ! j) = [Text [], Text pound, Fixed NaN 2]"
    if "i < length ocs" "o_profit (ocs ! i) = None" "i \<le> j" "j < length ocs" for i j
  proof -
    have "running_pnl (outcomesWithRunning ocs ! j) = NaN"
      unfolding outcomesWithRunning_def using that by (rule running_loop_NaN)
    with that(4) show ?thesis
      by (simp add: row render_row_def Let_def)
  qed
  from v len cells nan show ?thesis by blast
qed

theorem ResultsPanel_renders_absent_fields_witness:
  "bet_outcomes malformed_results = Some malformed_outcomes \<and>
   evaluations malformed_results = Some example_evaluations \<and>
   SummaryBar (summary malformed_results) = Inr None \<and>
   o_stake (malformed_outcomes ! 1) = None \<and>
   o_liability (malformed_outcomes ! 1) = None \<and>
   o_profit (malformed_outcomes ! 1) = None \<and>
   (\<exists>v rows. ResultsPanel (Some malformed_results) = Inr (Panel v) \<and>
      table v = Some rows \<and> length rows = 3 \<and>
      stake_cell (rows ! 1) = [Text pound] \<and>
      liability_cell (rows ! 1) = [Text pound] \<and>
      pnl_cell (rows ! 1) = [Text [], Text pound] \<and>
      running_cell (rows ! 2) = [Text [], Text pound, Fixed NaN 2])"
proof -
  have a: "bet_outcomes malformed_results = Some malformed_outcomes"
    and b: "evaluations malformed_results = Some example_evaluations"
    and c: "SummaryBar (summary malformed_results) = Inr None"
    by (simp_all add: malformed_results_def SummaryBar_def)
  have d: "o_stake (malformed_outcomes ! 1) = None"
    and e: "o_liability (malformed_outcomes ! 1) = None"
    and f: "o_profit (malformed_outcomes ! 1) = None"
    and l: "length malformed_outcomes = 3" "malformed_outcomes \<noteq> []"
    by (simp_all add: malformed_outcomes_def bet_def)
  from ResultsPanel_renders_absent_fields [OF a b c] obtain v rows where
    v: "ResultsPanel (Some malformed_results) = Inr (Panel v)"
       "table v = (if malformed_outcomes = [] then None else Some rows)"
       "length rows = length malformed_outcomes"
    and all: "\<forall>i<length malformed_outcomes.
        (o_stake (malformed_outcomes ! i) = None \<longrightarrow> stake_cell (rows ! i) = [Text pound]) \<and>
        (o_liability (malformed_outcomes ! i) = None \<longrightarrow>
           liability_cell (rows ! i) = [Text pound]) \<and>
        (o_profit (malformed_outcomes ! i) = None \<longrightarrow>
           pnl_cell (rows ! i) = [Text [], Text pound] \<and>
           (\<forall>j. i \<le> j \<and> j < length malformed_outcomes \<longrightarrow>
              running_cell (rows ! j) = [Text [], Text pound, Fixed NaN 2]))"
    by blast
  have "(1::nat) < length malformed_outcomes" "(2::nat) < length malformed_outcomes"
    using l by simp_all
  with all d e f have one: "stake_cell (rows ! 1) = [Text pound]"
      "liability_cell (rows ! 1) = [Text pound]"
      "pnl_cell (rows ! 1) = [Text [], Text pound]"
      "\<forall>j. 1 \<le> j \<and> j < length malformed_outcomes \<longrightarrow>
          running_cell (rows ! j) = [Text [], Text pound, Fixed NaN 2]"
    by blast+
  from one(4) \<open>2 < length malformed_outcomes\<close>
  have two: "running_cell (rows ! 2) = [Text [], Text pound, Fixed NaN 2]"
    by simp
  from v l have "table v = Some rows" "length rows = 3" by simp_all
  with a b c d e f v(1) one two show ?thesis by blast
qed

text \<open>
  C7. For a response that carries \<open>bet_outcomes\<close> and \<open>evaluations\<close> and whose summary
  bar renders: when no evaluation has the \<open>market_id\<close> of outcome \<open>i\<close>, the panel
  still renders, and row \<open>i\<close> shows the empty string as venue and as market name.
\<close>

theorem missing_evaluation_empty_cells:
  assumes "bet_outcomes r = Some ocs" and "evaluations r = Some evs"
    and "SummaryBar (summary r) = Inr b"
    and "i < length ocs"
    and "\<forall>e\<in>set evs. e_market_id e \<noteq> o_market_id (ocs ! i)"
  shows "\<exists>v rows. ResultsPanel (Some r) = Inr (Panel v) \<and> table v = Some rows \<and>
           length rows = length ocs \<and>
           venue_cell (rows ! i) = [] \<and> market_cell (rows ! i) = []"
proof -
  from assms(4) have ne: "ocs \<noteq> []" by auto
  from ResultsPanel_rows [OF assms(1-3)] ne obtain v where
    v: "ResultsPanel (Some r) = Inr (Panel v)"
       "table v = Some (map (render_row evs) (outcomesWithRunning ocs))"
    by auto
  have len: "length (map (render_row evs) (outcomesWithRunning ocs)) = length ocs"
    by (simp add: outcomesWithRunning_def length_running_loop)
  have "\<forall>e\<in>set evs. e_market_id e \<noteq> o_market_id (outcomesWithRunning ocs ! i)"
    using assms(4,5) by (simp add: outcome_of_running)
  then have "venue_cell (render_row evs (outcomesWithRunning ocs ! i)) = [] \<and>
      market_cell (render_row evs (outcomesWithRunning ocs ! i)) = []"
    by (rule render_row_no_match)
  then have "venue_cell (map (render_row evs) (outcomesWithRunning ocs) ! i) = [] \<and>
      market_cell (map (render_row evs) (outcomesWithRunning ocs) ! i) = []"
    using assms(4) by (simp add: outcomesWithRunning_def length_running_loop)
  with v len show ?thesis by blast
qed

theorem missing_evaluation_empty_cells_witness:
  "bet_outcomes malformed_results = Some malformed_outcomes \<and>
   evaluations malformed_results = Some example_evaluations \<and>
   SummaryBar (summary malformed_results) = Inr None \<and>
   (2::nat) < length malformed_outcomes \<and>
   o_market_id (malformed_outcomes ! 2) = Some ''m3'' \<and>
   map e_market_id example_evaluations = [Some ''m1''] \<and>
   (\<exists>v rows. ResultsPanel (Some malformed_results) = Inr (Panel v) \<and> table v = Some rows \<and>
      length rows = 3 \<and> venue_cell (rows ! 2) = [] \<and> market_cell (rows ! 2) = [])"
proof -
  have a: "bet_outcomes malformed_results = Some malformed_outcomes"
    and b: "evaluations malformed_results = Some example_evaluations"
    and c: "SummaryBar (summary malformed_results) = Inr None"
    by (simp_all add: malformed_results_def SummaryBar_def)
  have d: "(2::nat) < length malformed_outcomes"
    and l: "length malformed_outcomes = 3"
    and m: "o_market_id (malformed_outcomes ! 2) = Some ''m3''"
    by (simp_all add: malformed_outcomes_def bet_def)
  have e: "map e_market_id example_evaluations = [Some ''m1'']"
    by (simp add: example_evaluations_def)
  have f: "\<forall>e\<in>set example_evaluations. e_market_id e \<noteq> o_market_id (malformed_outcomes ! 2)"
    by (simp add: example_evaluations_def m)
  from missing_evaluation_empty_cells [OF a b c d f] l
  have "\<exists>v rows. ResultsPanel (Some malformed_results) = Inr (Panel v) \<and> table v = Some rows \<and>
      length rows = 3 \<and> venue_cell (rows ! 2) = [] \<and> market_cell (rows ! 2) = []"
    by simp
  with a b c d m e show ?thesis by blast
qed




section \<open>Properties of the editor\<close>

lemmas parseFloat_defs = parseFloat_def split_sign_def is_digit_def digits_value_def
  digit_value_def parse_exponent_def is_space_def

text \<open>
  C9, as stated, fails: clearing the stake input stores the stake \<open>0\<close>, and typing \<open>-5\<close>
  stores the stake \<open>-5\<close>.
\<close>

theorem stake_edit_not_positive:
  "stake (stake_onChange [] example_action) = Num 0 \<and>
   \<not> js_gt (stake (stake_onChange [] example_action)) (Num 0) \<and>
   stake (stake_onChange ''-5'' example_action) = Num (- 5) \<and>
   \<not> js_gt (stake (stake_onChange ''-5'' example_action)) (Num 0)"
  by (simp add: stake_onChange_def js_or_def parseFloat_defs)

text \<open>
  C9, amended. After every stake edit the stake of the action is a number, never
  \<open>NaN\<close>: the value \<open>parseFloat\<close> reads from the input when that is a number other
  than zero, and \<open>0\<close> otherwise. It is greater than zero exactly when the input reads as
  a positive number. The target and the bet type of the action are unchanged.
\<close>

theorem stake_onChange_number:
  "stake (stake_onChange v a) \<noteq> NaN \<and>
   (truthy (parseFloat v) \<longrightarrow> stake (stake_onChange v a) = parseFloat v) \<and>
   (\<not> truthy (parseFloat v) \<longrightarrow> stake (stake_onChange v a) = Num 0) \<and>
   js_gt (stake (stake_onChange v a)) (Num 0) = js_gt (parseFloat v) (Num 0) \<and>
   target (stake_onChange v a) = target a \<and>
   bet_type (stake_onChange v a) = bet_type a"
  by (cases "parseFloat v") (simp_all add: stake_onChange_def js_or_def)

theorem stake_onChange_number_witness:
  "truthy (parseFloat ''2.5'') \<and>
   stake (stake_onChange ''2.5'' example_action) = Num 2.5 \<and>
   \<not> truthy (parseFloat ''abc'') \<and>
   stake (stake_onChange ''abc'' example_action) = Num 0"
proof -
  have t: "truthy (parseFloat ''2.5'')" and p: "parseFloat ''2.5'' = Num 2.5"
    by (simp_all add: parseFloat_defs)
  have f: "\<not> truthy (parseFloat ''abc'')"
    by (simp add: parseFloat_defs)
  from stake_onChange_number [of "''2.5''" example_action] t p
  have a: "stake (stake_onChange ''2.5'' example_action) = Num 2.5" by simp
  from stake_onChange_number [of "''abc''" example_action] f
  have b: "stake (stake_onChange ''abc'' example_action) = Num 0" by blast
  from t f a b show ?thesis by blast
qed



section \<open>Properties of the application\<close>

text \<open>
  C6. When a run is started and the call to the engine throws, the results shown
  before are still the results, the error is written to the console, the running flag is
  off again, and the date, the selection and the strategy are unchanged.
\<close>

theorem failed_run_keeps_results:
  assumes "strategy w = Some strat" and "selectedDate w \<noteq> []"
    and "engine \<lparr>req_date = selectedDate w, req_strategy = strat,
           market_ids = (if selectedMarkets w = [] then None else Some (selectedMarkets w))\<rparr>
         = Inl err"
  shows "results (handleRun engine w) = results w \<and>
         console (handleRun engine w) = console w @ [(''Simulation error:'', err)] \<and>
         running (handleRun engine w) = False \<and>
         strategy (handleRun engine w) = strategy w \<and>
         selectedDate (handleRun engine w) = selectedDate w \<and>
         selectedMarkets (handleRun engine w) = selectedMarkets w"
  using assms
  by (cases "selectedMarkets w = []") (simp_all add: handleRun_def runSimulation_def Let_def)

theorem failed_run_keeps_results_witness:
  "strategy (ready_world []) = Some unsorted_strategy \<and>
   selectedDate (ready_world []) \<noteq> [] \<and>
   failing_engine \<lparr>req_date = ''2024-01-01'', req_strategy = unsorted_strategy, market_ids = None\<rparr>
     = Inl TypeError \<and>
   results (handleRun failing_engine (ready_world [])) = Some example_results \<and>
   console (handleRun failing_engine (ready_world [])) = [(''Simulation error:'', TypeError)]"
proof -
  have a: "strategy (ready_world []) = Some unsorted_strategy"
    and b: "selectedDate (ready_world []) \<noteq> []"
    by (simp_all add: ready_world_def)
  have c: "failing_engine \<lparr>req_date = selectedDate (ready_world []),
        req_strategy = unsorted_strategy,
        market_ids = (if selectedMarkets (ready_world []) = [] then None
                      else Some (selectedMarkets (ready_world [])))\<rparr> = Inl TypeError"
    by (simp add: failing_engine_def)
  from failed_run_keeps_results [where w = "ready_world []" and strat = unsorted_strategy
      and engine = failing_engine and err = TypeError] a b c
  have "results (handleRun failing_engine (ready_world [])) = results (ready_world []) \<and>
        console (handleRun failing_engine (ready_world [])) =
          console (ready_world []) @ [(''Simulation error:'', TypeError)]"
    by blast
  with a b show ?thesis
    by (simp add: ready_world_def failing_engine_def)
qed

text \<open>
  C10. With a strategy loaded and a date chosen, a run posts one body to the engine:
  with \<open>market_ids = null\<close> when no market is selected, and with exactly the selected
  market ids otherwise. Without a strategy or without a date the run changes nothing and
  posts nothing.
\<close>

theorem handleRun_request:
  "(strategy w = Some strat \<and> selectedDate w \<noteq> [] \<and> selectedMarkets w = [] \<longrightarrow>
      posted (handleRun engine w) =
        posted w @ [\<lparr>req_date = selectedDate w, req_strategy = strat, market_ids = None\<rparr>]) \<and>
   (strategy w = Some strat \<and> selectedDate w \<noteq> [] \<and> selectedMarkets w \<noteq> [] \<longrightarrow>
      posted (handleRun engine w) =
        posted w @ [\<lparr>req_date = selectedDate w, req_strategy = strat,
                     market_ids = Some (selectedMarkets w)\<rparr>]) \<and>
   (strategy w = None \<or> selectedDate w = [] \<longrightarrow> handleRun engine w = w)"
  by (auto simp: handleRun_def runSimulation_def Let_def split: option.splits sum.splits)

theorem handleRun_request_witness:
  "strategy (ready_world []) = Some unsorted_strategy \<and>
   selectedDate (ready_world []) = ''2024-01-01'' \<and>
   posted (handleRun answering_engine (ready_world [])) =
     [\<lparr>req_date = ''2024-01-01'', req_strategy = unsorted_strategy, market_ids = None\<rparr>] \<and>
   posted (handleRun answering_engine (ready_world [''m1'', ''m2''])) =
     [\<lparr>req_date = ''2024-01-01'', req_strategy = unsorted_strategy,
       market_ids = Some [''m1'', ''m2'']\<rparr>] \<and>
   handleRun answering_engine ((ready_world [''m1''])\<lparr>selectedDate := []\<rparr>)
     = (ready_world [''m1''])\<lparr>selectedDate := []\<rparr> \<and>
   handleRun answering_engine ((ready_world [''m1''])\<lparr>strategy := None\<rparr>)
     = (ready_world [''m1''])\<lparr>strategy := None\<rparr>"
proof -
  note r = handleRun_request [where engine = answering_engine and strat = unsorted_strategy]
  have s: "strategy (ready_world []) = Some unsorted_strategy"
    and t: "selectedDate (ready_world []) = ''2024-01-01''"
    by (simp_all add: ready_world_def)
  have a: "posted (handleRun answering_engine (ready_world [])) =
      [\<lparr>req_date = ''2024-01-01'', req_strategy = unsorted_strategy, market_ids = None\<rparr>]"
    using r [of "ready_world []"] by (simp add: ready_world_def)
  have b: "posted (handleRun answering_engine (ready_world [''m1'', ''m2''])) =
      [\<lparr>req_date = ''2024-01-01'', req_strategy = unsorted_strategy,
        market_ids = Some [''m1'', ''m2'']\<rparr>]"
    using r [of "ready_world [''m1'', ''m2'']"] by (simp add: ready_world_def)
  have c: "handleRun answering_engine ((ready_world [''m1''])\<lparr>selectedDate := []\<rparr>)
      = (ready_world [''m1''])\<lparr>selectedDate := []\<rparr>"
    using r [of "(ready_world [''m1''])\<lparr>selectedDate := []\<rparr>"] by simp
  have d: "handleRun answering_engine ((ready_world [''m1''])\<lparr>strategy := None\<rparr>)
      = (ready_world [''m1''])\<lparr>strategy := None\<rparr>"
    using r [of "(ready_world [''m1''])\<lparr>strategy := None\<rparr>"] by simp
  from s t a b c d show ?thesis by blast
qed

end
